theory Spec2Isabelle
  imports Complex_Main
begin

section \<open>The retry decorator of dp_config.py\<close>

text \<open>
  Numbers that Python holds as \<open>int\<close> or \<open>float\<close> (delay, backoff, jitter, sleep
  durations, random draws) are real numbers here: rounding and overflow of floats are
  not part of this development. The attempt count \<open>retries\<close> is a Python \<open>int\<close>.

  An exception raised by the wrapped function is either an instance of \<open>Exception\<close>,
  which \<open>except Exception\<close> catches, or an instance of \<open>BaseException\<close> outside
  \<open>Exception\<close> (\<open>KeyboardInterrupt\<close>, \<open>SystemExit\<close>), which it lets through.
\<close>

datatype 'e py_exception = Exception 'e | BaseOnly 'e


datatype log_level = INFO | WARNING | ERROR

datatype retry_event = AttemptFailed nat | Waiting real | Exhausted

text \<open>
  The state a wrapped call runs in: \<open>app\<close> is whatever the wrapped function acts on;
  \<open>random_tape\<close> holds the values that successive calls of \<open>random.random()\<close> return and
  \<open>draws\<close> how many have been taken; \<open>slept\<close> lists the durations passed to
  \<open>time.sleep\<close>, oldest first; \<open>logged\<close> is what the wrapper sent to the logger.
\<close>

record 's runtime =
  app :: 's
  random_tape :: "nat \<Rightarrow> real"
  draws :: nat
  slept :: "real list"
  logged :: "(log_level \<times> retry_event) list"



definition logger :: "log_level \<Rightarrow> retry_event \<Rightarrow> 's runtime \<Rightarrow> 's runtime" where
  "logger lv ev w = w\<lparr>logged := logged w @ [(lv, ev)]\<rparr>"



text \<open>
  Instrumentation for stating how often a function was invoked: \<open>counted func\<close> behaves as
  \<open>func\<close> on the second component of the state and counts its invocations in the first.
\<close>

definition counted :: "('s \<Rightarrow> 'r \<times> 's) \<Rightarrow> nat \<times> 's \<Rightarrow> 'r \<times> (nat \<times> 's)" where
  "counted func = (\<lambda>(n, s). case func s of (r, s') \<Rightarrow> (r, (Suc n, s')))"


section \<open>The session facade \<open>GuaPage\<close>\<close>
















section \<open>The plugin provisioner\<close>

text \<open>
  The environment of the provisioner and of \<open>set_driver\<close>. Paths and input lines are byte
  strings (UTF-8). \<open>fs\<close> is the set of absolute paths that exist. \<open>network\<close> says what a
  GET of a URL yields and \<open>requests_made\<close> lists the URLs fetched so far. \<open>stdin\<close> holds
  the lines \<open>input()\<close> will read, with end of input after the last one; \<open>console\<close> is
  what was printed. \<open>launched\<close> lists the options of the browsers started.

  The body of a response is either no zip archive at all or an archive, given by the
  paths its extraction creates (directories included), relative to the directory it is
  extracted into.
\<close>

datatype archive = NotAZip | Zip "string list"

datatype http_response = ConnectionFailed | HttpStatusError | StreamBroken | Body archive

datatype plugin_event =
  PluginExists string | PluginMissing string | NoUrl string | UserDeclined string
  | DownloadStart string string | DownloadDone string | Installed string
  | DirMissingAfterExtract string | DownloadFailed string | ExtractFailed string
  | UnknownError string | PluginSkipped string

datatype console_line = AskDownload string | AnswerYesOrNo

datatype pref_value = PStr string | PBool bool

record chromium_options =
  browser_path :: "string option"
  arguments :: "string list"
  prefs :: "(string \<times> pref_value) list"
  proxy :: "string option"
  headless_mode :: "bool option"
  user_agent :: "string option"
  new_env :: bool
  extensions :: "string list"

record world =
  os_name_nt :: bool
  cwd :: string
  fs :: "string set"
  disk_writable :: bool
  network :: "string \<Rightarrow> http_response"
  requests_made :: "string list"
  stdin :: "string list"
  console :: "console_line list"
  journal :: "(log_level \<times> plugin_event) list"
  is_user_an_admin :: bool
  geteuid :: "nat option"
  launched :: "chromium_options list"

definition log_event :: "log_level \<Rightarrow> plugin_event \<Rightarrow> world \<Rightarrow> world" where
  "log_event lv ev w = w\<lparr>journal := journal w @ [(lv, ev)]\<rparr>"

text \<open>
  \<open>os.path.join\<close> of two components. On POSIX a second component that starts with a
  slash replaces the first. On Windows the separator is the backslash and a second
  component with a drive letter or a leading separator is taken as absolute (the rule of
  \<open>ntpath\<close> that a rooted path without a drive keeps the drive of the first component is
  left out).
\<close>

definition backslash :: char where
  "backslash = CHR 0x5C"

fun has_drive :: "string \<Rightarrow> bool" where
  "has_drive (c # d # _) = (d = CHR '':'')"
| "has_drive _ = False"

definition is_sep :: "bool \<Rightarrow> char \<Rightarrow> bool" where
  "is_sep nt c = (c = CHR ''/'' \<or> (nt \<and> c = backslash))"

definition is_abs :: "bool \<Rightarrow> string \<Rightarrow> bool" where
  "is_abs nt p = (case p of [] \<Rightarrow> False | c # _ \<Rightarrow> is_sep nt c \<or> (nt \<and> has_drive p))"

definition os_path_join :: "bool \<Rightarrow> string \<Rightarrow> string \<Rightarrow> string" where
  "os_path_join nt a b =
     (if is_abs nt b then b
      else if a = [] \<or> is_sep nt (last a) then a @ b
      else a @ [if nt then backslash else CHR ''/''] @ b)"

text \<open>A relative path names a file under the current directory.\<close>

definition abspath :: "world \<Rightarrow> string \<Rightarrow> string" where
  "abspath w p = os_path_join (os_name_nt w) (cwd w) p"

definition os_path_exists :: "world \<Rightarrow> string \<Rightarrow> bool" where
  "os_path_exists w p = (abspath w p \<in> fs w)"

definition PLUGIN_URLS :: "(string \<times> string) list" where
  "PLUGIN_URLS =
     [(''cloudflare_ua_patch'',
       ''https://github.com/gua12345/DrissionPage_Base_Code/releases/download/v1/cloudflare_ua_patch.zip''),
      (''my-fingerprint-chrome'',
       ''https://github.com/gua12345/DrissionPage_Base_Code/releases/download/v1/my-fingerprint-chrome-v2.5.1.zip''),
      (''turnstilePatch'',
       ''https://github.com/gua12345/DrissionPage_Base_Code/releases/download/v1/turnstilePatch.zip'')]"

text \<open>
  The exceptions the \<open>try\<close> block of \<open>download_plugin\<close> can end with, by the handler that
  takes them: \<open>requests.RequestException\<close>, \<open>zipfile.BadZipFile\<close>, or any other
  \<open>Exception\<close> (the \<open>KeyError\<close> of a name without a URL, the \<open>OSError\<close> of a file that
  cannot be created).
\<close>

datatype download_exception = RequestException | BadZipFile | KeyError | OSError

text \<open>
  The \<open>try\<close> block, lines 69 to 99. \<open>requests.get\<close> fails with \<open>ConnectionFailed\<close>,
  \<open>raise_for_status\<close> with \<open>HttpStatusError\<close>; \<open>open(zip_filename, 'wb')\<close> creates the
  file before the first chunk is read, so a stream that breaks leaves it behind;
  \<open>extractall('.')\<close> creates the members of the archive under the current directory.
\<close>

definition download_plugin_try :: "string \<Rightarrow> world \<Rightarrow> (download_exception + bool) \<times> world" where
  "download_plugin_try plugin_name w =
     (case map_of PLUGIN_URLS plugin_name of
        None \<Rightarrow> (Inl KeyError, w)
      | Some url \<Rightarrow>
          (let w1 = log_event INFO (DownloadStart plugin_name url) w;
               w2 = w1\<lparr>requests_made := requests_made w1 @ [url]\<rparr>;
               response = network w2 url
           in if response = ConnectionFailed \<or> response = HttpStatusError
              then (Inl RequestException, w2)
              else
                (let zip_filename = plugin_name @ ''.zip''
                 in if \<not> disk_writable w2 then (Inl OSError, w2)
                    else
                      (let w3 = w2\<lparr>fs := insert (abspath w2 zip_filename) (fs w2)\<rparr>
                       in case response of
                            Body content \<Rightarrow>
                              (let w4 = log_event INFO (DownloadDone plugin_name) w3
                               in case content of
                                    NotAZip \<Rightarrow> (Inl BadZipFile, w4)
                                  | Zip members \<Rightarrow>
                                      (let w5 = w4\<lparr>fs := fs w4 \<union> abspath w4 ` set members\<rparr>;
                                           w6 = w5\<lparr>fs := fs w5 - {abspath w5 zip_filename}\<rparr>;
                                           plugin_path = os_path_join (os_name_nt w6) (cwd w6) plugin_name
                                       in if os_path_exists w6 plugin_path
                                          then (Inr True, log_event INFO (Installed plugin_name) w6)
                                          else (Inr False,
                                                log_event ERROR (DirMissingAfterExtract plugin_name) w6)))
                          | _ \<Rightarrow> (Inl RequestException, w3)))))"

text \<open>\<open>download_plugin\<close>: the \<open>try\<close> block under its three handlers.\<close>

definition download_plugin :: "string \<Rightarrow> world \<Rightarrow> bool \<times> world" where
  "download_plugin plugin_name w =
     (case download_plugin_try plugin_name w of
        (Inr ok, w') \<Rightarrow> (ok, w')
      | (Inl RequestException, w') \<Rightarrow> (False, log_event ERROR (DownloadFailed plugin_name) w')
      | (Inl BadZipFile, w') \<Rightarrow> (False, log_event ERROR (ExtractFailed plugin_name) w')
      | (Inl _, w') \<Rightarrow> (False, log_event ERROR (UnknownError plugin_name) w'))"

text \<open>
  \<open>str.strip\<close> and \<open>str.lower\<close>, on the ASCII part of the line: whitespace is the
  characters 9 to 13, 28 to 32; letters A to Z are lowered.
\<close>

definition is_space :: "char \<Rightarrow> bool" where
  "is_space c = (let n = (of_char c :: nat) in (9 \<le> n \<and> n \<le> 13) \<or> (28 \<le> n \<and> n \<le> 32))"

definition strip :: "string \<Rightarrow> string" where
  "strip s = rev (dropWhile is_space (rev (dropWhile is_space s)))"

definition lower :: "string \<Rightarrow> string" where
  "lower s = map (\<lambda>c. let n = (of_char c :: nat)
                      in if 65 \<le> n \<and> n \<le> 90 then char_of (n + 32) else c) s"

text \<open>The answers of lines 50 and 52; the last of each is one Chinese character in UTF-8.\<close>

definition yes_answers :: "string list" where
  "yes_answers = [''y'', ''yes'', [CHR 0xE6, CHR 0x98, CHR 0xAF]]"

definition no_answers :: "string list" where
  "no_answers = [''n'', ''no'', [CHR 0xE5, CHR 0x90, CHR 0xA6]]"

datatype launch_error = FileNotFoundError | EOFError

text \<open>
  The \<open>while True\<close> loop of lines 48 to 56, over the lines still to be read. \<open>input()\<close>
  prints the prompt, then reads a line or raises \<open>EOFError\<close> at the end of input.
  Every round takes one line, so on a finite input the loop ends, at the latest with
  \<open>EOFError\<close>; a terminal that supplies invalid answers for ever is no finite input
  and has no run here.
\<close>

fun ask_download :: "string \<Rightarrow> string list \<Rightarrow> world \<Rightarrow> (launch_error + bool) \<times> world" where
  "ask_download plugin_name [] w =
     (Inl EOFError, w\<lparr>stdin := [], console := console w @ [AskDownload plugin_name]\<rparr>)"
| "ask_download plugin_name (line # rest) w =
     (let w1 = w\<lparr>stdin := rest, console := console w @ [AskDownload plugin_name]\<rparr>;
          user_input = lower (strip line)
      in if user_input \<in> set yes_answers
         then (case download_plugin plugin_name w1 of (ok, w2) \<Rightarrow> (Inr ok, w2))
         else if user_input \<in> set no_answers
         then (Inr False, log_event INFO (UserDeclined plugin_name) w1)
         else ask_download plugin_name rest (w1\<lparr>console := console w1 @ [AnswerYesOrNo]\<rparr>))"

definition check_and_download_plugin :: "string \<Rightarrow> world \<Rightarrow> (launch_error + bool) \<times> world" where
  "check_and_download_plugin plugin_name w =
     (let plugin_path = os_path_join (os_name_nt w) (cwd w) plugin_name
      in if os_path_exists w plugin_path
         then (Inr True, log_event INFO (PluginExists plugin_name) w)
         else
           (let w1 = log_event WARNING (PluginMissing plugin_name) w
            in if plugin_name \<notin> set (map fst PLUGIN_URLS)
               then (Inr False, log_event ERROR (NoUrl plugin_name) w1)
               else ask_download plugin_name (stdin w1) w1))"

section \<open>The launch configurator \<open>set_driver\<close>\<close>

text \<open>
  \<open>ChromiumOptions\<close> belongs to the driver. Its setters are modelled as updates of the
  record of options; a fresh \<open>ChromiumOptions()\<close> is taken to be empty (the defaults the
  driver reads from its own configuration file are left out).
\<close>

definition ChromiumOptions :: chromium_options where
  "ChromiumOptions =
     \<lparr>browser_path = None, arguments = [], prefs = [], proxy = None, headless_mode = None,
      user_agent = None, new_env = False, extensions = []\<rparr>"

definition set_paths :: "string \<Rightarrow> chromium_options \<Rightarrow> chromium_options" where
  "set_paths p co = co\<lparr>browser_path := Some p\<rparr>"

definition set_argument :: "string \<Rightarrow> chromium_options \<Rightarrow> chromium_options" where
  "set_argument a co = co\<lparr>arguments := arguments co @ [a]\<rparr>"

definition set_pref :: "string \<Rightarrow> pref_value \<Rightarrow> chromium_options \<Rightarrow> chromium_options" where
  "set_pref k v co = co\<lparr>prefs := prefs co @ [(k, v)]\<rparr>"

definition set_proxy :: "string \<Rightarrow> chromium_options \<Rightarrow> chromium_options" where
  "set_proxy p co = co\<lparr>proxy := Some p\<rparr>"

definition headless :: "bool \<Rightarrow> chromium_options \<Rightarrow> chromium_options" where
  "headless on co = co\<lparr>headless_mode := Some on\<rparr>"

definition set_user_agent :: "string \<Rightarrow> chromium_options \<Rightarrow> chromium_options" where
  "set_user_agent ua co = co\<lparr>user_agent := Some ua\<rparr>"

definition add_extension :: "string \<Rightarrow> chromium_options \<Rightarrow> chromium_options" where
  "add_extension p co = co\<lparr>extensions := extensions co @ [p]\<rparr>"

text \<open>The session handle: a \<open>GuaPage\<close> built from its options.\<close>

datatype gua_page = GuaPage chromium_options

text \<open>Truth value of an optional string argument: \<open>None\<close> and the empty string are false.\<close>

definition truthy :: "string option \<Rightarrow> bool" where
  "truthy x = (case x of None \<Rightarrow> False | Some s \<Rightarrow> s \<noteq> [])"

definition nt_path :: "string list \<Rightarrow> string" where
  "nt_path parts = foldr (\<lambda>p acc. if acc = [] then p else p @ [backslash] @ acc) parts []"

definition windows_paths :: "string list" where
  "windows_paths =
     [nt_path [''C:'', ''Program Files'', ''Google'', ''Chrome'', ''Application'', ''chrome.exe''],
      nt_path [''C:'', ''Program Files (x86)'', ''Google'', ''Chrome'', ''Application'', ''chrome.exe''],
      nt_path [''C:'', ''Program Files'', ''Microsoft'', ''Edge'', ''Application'', ''msedge.exe'']]"

definition linux_paths :: "string list" where
  "linux_paths =
     [''/usr/bin/google-chrome'',
      ''/usr/bin/chromium'',
      ''/usr/bin/chromium-browser'',
      ''/usr/bin/microsoft-edge'',
      ''/snap/bin/chromium'',
      ''/usr/lib/chromium/chromium'',
      ''/usr/lib/chromium-browser/chromium-browser'']"

definition default_user_agent :: string where
  "default_user_agent =
     ''Mozilla/5.0 (X11; Linux x86_64) AppleWebKit/537.36 (KHTML, like Gecko) Chrome/131.0.0.0 Safari/537.36''"

text \<open>Lines 288 to 294: the path given, or else the first candidate that exists.\<close>

definition resolve_browser_path :: "string option \<Rightarrow> world \<Rightarrow> launch_error + string" where
  "resolve_browser_path browser_path_arg w =
     (let is_windows = os_name_nt w;
          default_paths = (if is_windows then windows_paths else linux_paths);
          found = (if \<not> truthy browser_path_arg
                   then (case find (os_path_exists w) default_paths of
                           Some path \<Rightarrow> Some path
                         | None \<Rightarrow> browser_path_arg)
                   else browser_path_arg)
      in case found of
           None \<Rightarrow> Inl FileNotFoundError
         | Some p \<Rightarrow> if p = [] then Inl FileNotFoundError else Inr p)"

text \<open>Lines 296 to 333: the options before any extension is attached.\<close>

definition base_options ::
  "bool \<Rightarrow> string \<Rightarrow> string option \<Rightarrow> string option \<Rightarrow> world \<Rightarrow> chromium_options" where
  "base_options headless_arg path user_agent_arg proxy_arg w =
     (let is_windows = os_name_nt w;
          co = set_paths path ChromiumOptions;
          is_admin = (if is_windows then is_user_an_admin w
                      else (case geteuid w of Some uid \<Rightarrow> uid = 0 | None \<Rightarrow> False));
          co = (if is_admin
                then (let co = set_argument ''--no-sandbox'' co;
                          co = set_argument ''--disable-dev-shm-usage'' co
                      in if \<not> is_windows
                         then set_argument ''--disable-software-rasterizer''
                                (set_argument ''--disable-gpu'' co)
                         else co)
                else co);
          co = set_pref ''profile.default_content_settings.popups'' (PStr ''0'') co;
          co = set_pref ''credentials_enable_service'' (PBool False) co;
          co = set_argument ''--hide-crash-restore-bubble'' co;
          co = set_argument ''--lang=en-US'' co;
          co = set_argument ''--accept-languages=en-US,en'' co;
          co = (case proxy_arg of
                  Some p \<Rightarrow> if p \<noteq> [] then set_proxy p co else co
                | None \<Rightarrow> co);
          co = headless headless_arg co;
          co = (case user_agent_arg of
                  Some ua \<Rightarrow> if ua \<noteq> [] then set_user_agent ua co
                             else set_user_agent default_user_agent co
                | None \<Rightarrow> set_user_agent default_user_agent co)
      in co\<lparr>new_env := True\<rparr>)"

text \<open>
  One of the three blocks of lines 336 to 352: under its flag, the extension is added
  when the provisioner answers \<open>True\<close> and a warning is logged when it answers \<open>False\<close>.
\<close>

definition attach_plugin ::
  "bool \<Rightarrow> string \<Rightarrow> chromium_options \<Rightarrow> world \<Rightarrow> (launch_error + chromium_options) \<times> world" where
  "attach_plugin flag plugin_name co w =
     (if flag
      then (case check_and_download_plugin plugin_name w of
              (Inl err, w') \<Rightarrow> (Inl err, w')
            | (Inr True, w') \<Rightarrow> (Inr (add_extension plugin_name co), w')
            | (Inr False, w') \<Rightarrow> (Inr co, log_event WARNING (PluginSkipped plugin_name) w'))
      else (Inr co, w))"

definition set_driver ::
  "bool \<Rightarrow> string option \<Rightarrow> string option \<Rightarrow> string option \<Rightarrow> bool \<Rightarrow> bool \<Rightarrow> bool \<Rightarrow>
   world \<Rightarrow> (launch_error + gua_page) \<times> world" where
  "set_driver headless_arg browser_path_arg user_agent_arg proxy_arg
              cf_bypass random_fingerprint ua_patch w =
     (case resolve_browser_path browser_path_arg w of
        Inl err \<Rightarrow> (Inl err, w)
      | Inr path \<Rightarrow>
          (let co = base_options headless_arg path user_agent_arg proxy_arg w
           in case attach_plugin cf_bypass ''turnstilePatch'' co w of
                (Inl err, w1) \<Rightarrow> (Inl err, w1)
              | (Inr co1, w1) \<Rightarrow>
                  (case attach_plugin random_fingerprint ''my-fingerprint-chrome'' co1 w1 of
                     (Inl err, w2) \<Rightarrow> (Inl err, w2)
                   | (Inr co2, w2) \<Rightarrow>
                       (case attach_plugin ua_patch ''cloudflare_ua_patch'' co2 w2 of
                          (Inl err, w3) \<Rightarrow> (Inl err, w3)
                        | (Inr co3, w3) \<Rightarrow>
                            (let co4 = (if os_path_exists w3 ''gpt_rf''
                                        then add_extension ''gpt_rf'' co3 else co3)
                             in (Inr (GuaPage co4), w3\<lparr>launched := launched w3 @ [co4]\<rparr>))))))"

section \<open>Concrete inputs\<close>






text \<open>
  A Linux machine with Chromium installed, an unprivileged user, an unreachable network
  and no input waiting.
\<close>

definition bare_world :: world where
  "bare_world =
     \<lparr>os_name_nt = False, cwd = ''/home/u'', fs = {''/usr/bin/chromium''},
      disk_writable = True, network = (\<lambda>_. ConnectionFailed), requests_made = [],
      stdin = [], console = [], journal = [], is_user_an_admin = False,
      geteuid = Some 1000, launched = []\<rparr>"

text \<open>
  The same machine with one plugin and \<open>gpt_rf\<close> in place, and a user who declines
  the first download and accepts the second, which the network then fails.
\<close>

definition declining_world :: world where
  "declining_world =
     bare_world\<lparr>fs := {''/usr/bin/chromium'', ''/home/u/my-fingerprint-chrome'', ''/home/u/gpt_rf''},
                stdin := ['' No '', ''Y'']\<rparr>"

text \<open>A Windows machine with Chrome installed.\<close>

definition windows_world :: world where
  "windows_world =
     bare_world\<lparr>os_name_nt := True, cwd := nt_path [''C:'', ''work''],
                fs := {nt_path [''C:'', ''Program Files'', ''Google'', ''Chrome'', ''Application'',
                                ''chrome.exe'']}\<rparr>"

section \<open>Auxiliary definitions\<close>


text \<open>The state in which \<open>time.sleep\<close> is called at line 145.\<close>

definition about_to_sleep :: "real \<Rightarrow> nat \<Rightarrow> real \<Rightarrow> 's \<Rightarrow> 's runtime \<Rightarrow> 's runtime" where
  "about_to_sleep jitter attempt t s w =
     logger INFO (Waiting t) (logger WARNING (AttemptFailed (attempt + 1))
       (w\<lparr>app := s, draws := (if jitter \<noteq> 0 then Suc (draws w) else draws w)\<rparr>))"

text \<open>The state after one invocation of a function, whatever its outcome.\<close>

definition state_after :: "('s \<Rightarrow> 'r \<times> 's) \<Rightarrow> 's \<Rightarrow> 's" where
  "state_after func s = snd (func s)"

section \<open>Properties of the retry decorator\<close>

lemma logger_fields [simp]:
  "app (logger lv ev w) = app w"
  "random_tape (logger lv ev w) = random_tape w"
  "slept (logger lv ev w) = slept w"
  "draws (logger lv ev w) = draws w"
  by (simp_all add: logger_def)

lemma about_to_sleep_fields [simp]:
  "app (about_to_sleep j a t s w) = s"
  "random_tape (about_to_sleep j a t s w) = random_tape w"
  "slept (about_to_sleep j a t s w) = slept w"
  by (simp_all add: about_to_sleep_def)









lemma counted_raises:
  "fst (func s) = Inl (Exception e) \<Longrightarrow>
   counted func (c, s) = (Inl (Exception e), (Suc c, state_after func s))"
  by (cases "func s") (simp add: counted_def state_after_def)














section \<open>Properties of the session facade\<close>















section \<open>Properties of the plugin provisioner\<close>

lemma log_event_fields [simp]:
  "os_name_nt (log_event lv ev w) = os_name_nt w"
  "cwd (log_event lv ev w) = cwd w"
  "fs (log_event lv ev w) = fs w"
  "disk_writable (log_event lv ev w) = disk_writable w"
  "network (log_event lv ev w) = network w"
  "requests_made (log_event lv ev w) = requests_made w"
  "stdin (log_event lv ev w) = stdin w"
  "console (log_event lv ev w) = console w"
  "launched (log_event lv ev w) = launched w"
  by (simp_all add: log_event_def)

lemma abspath_log_event [simp]: "abspath (log_event lv ev w) p = abspath w p"
  by (simp add: abspath_def)

lemma os_path_exists_log_event [simp]:
  "os_path_exists (log_event lv ev w) p = os_path_exists w p"
  by (simp add: os_path_exists_def)

text \<open>
  Claim C4. When the path of the plugin under the current directory exists,
  \<open>check_and_download_plugin\<close> returns \<open>True\<close> and does nothing but log one line: no
  request is made, nothing is printed or read, and the file system is as before.
\<close>

theorem check_existing_plugin:
  assumes "os_path_exists w (os_path_join (os_name_nt w) (cwd w) plugin_name)"
  shows "check_and_download_plugin plugin_name w
           = (Inr True, log_event INFO (PluginExists plugin_name) w)
         \<and> requests_made (snd (check_and_download_plugin plugin_name w)) = requests_made w
         \<and> console (snd (check_and_download_plugin plugin_name w)) = console w
         \<and> stdin (snd (check_and_download_plugin plugin_name w)) = stdin w
         \<and> fs (snd (check_and_download_plugin plugin_name w)) = fs w"
  using assms by (simp add: check_and_download_plugin_def)

theorem check_existing_plugin_witness:
  "check_and_download_plugin ''turnstilePatch''
       (bare_world\<lparr>fs := {''/home/u/turnstilePatch''}, stdin := [''y'']\<rparr>)
     = (Inr True, log_event INFO (PluginExists ''turnstilePatch'')
          (bare_world\<lparr>fs := {''/home/u/turnstilePatch''}, stdin := [''y'']\<rparr>))
   \<and> requests_made (snd (check_and_download_plugin ''turnstilePatch''
          (bare_world\<lparr>fs := {''/home/u/turnstilePatch''}, stdin := [''y'']\<rparr>))) = []
   \<and> console (snd (check_and_download_plugin ''turnstilePatch''
          (bare_world\<lparr>fs := {''/home/u/turnstilePatch''}, stdin := [''y'']\<rparr>))) = []
   \<and> stdin (snd (check_and_download_plugin ''turnstilePatch''
          (bare_world\<lparr>fs := {''/home/u/turnstilePatch''}, stdin := [''y'']\<rparr>))) = [''y'']"
  using check_existing_plugin [of "bare_world\<lparr>fs := {''/home/u/turnstilePatch''}, stdin := [''y'']\<rparr>"
      "''turnstilePatch''"]
  by (simp add: bare_world_def os_path_exists_def abspath_def os_path_join_def is_abs_def
        is_sep_def)

text \<open>
  \<open>download_plugin\<close> answers \<open>False\<close> when the request fails, when the body is not an
  archive, and when the archive does not hold the plugin's directory.
\<close>

lemma download_plugin_reports_failure:
  assumes "map_of PLUGIN_URLS plugin_name = Some url"
  shows "network w url \<in> {ConnectionFailed, HttpStatusError, StreamBroken, Body NotAZip}
           \<Longrightarrow> fst (download_plugin plugin_name w) = False"
    and "network w url = Body (Zip members) \<Longrightarrow> disk_writable w \<Longrightarrow>
         \<not> os_path_exists (snd (download_plugin plugin_name w))
              (os_path_join (os_name_nt w) (cwd w) plugin_name)
         \<Longrightarrow> fst (download_plugin plugin_name w) = False"
  using assms
  by (auto simp: download_plugin_def download_plugin_try_def Let_def os_path_exists_def
        abspath_def split: if_splits)

text \<open>
  Claim C5 fails on the code: \<open>os.remove\<close> is reached only after a successful
  extraction, so an archive that cannot be opened, or a stream that breaks after the
  file was created, leaves \<open>turnstilePatch.zip\<close> in the current directory although
  \<open>download_plugin\<close> answers \<open>False\<close>.
\<close>

theorem download_failure_leaves_zip:
  "fst (download_plugin ''turnstilePatch'' (bare_world\<lparr>network := (\<lambda>_. Body NotAZip)\<rparr>)) = False
   \<and> ''/home/u/turnstilePatch.zip'' \<notin> fs (bare_world\<lparr>network := (\<lambda>_. Body NotAZip)\<rparr>)
   \<and> ''/home/u/turnstilePatch.zip''
        \<in> fs (snd (download_plugin ''turnstilePatch'' (bare_world\<lparr>network := (\<lambda>_. Body NotAZip)\<rparr>)))
   \<and> fst (download_plugin ''turnstilePatch'' (bare_world\<lparr>network := (\<lambda>_. StreamBroken)\<rparr>)) = False
   \<and> ''/home/u/turnstilePatch.zip''
        \<in> fs (snd (download_plugin ''turnstilePatch'' (bare_world\<lparr>network := (\<lambda>_. StreamBroken)\<rparr>)))"
  by (simp add: download_plugin_def download_plugin_try_def PLUGIN_URLS_def bare_world_def
        Let_def log_event_def abspath_def os_path_join_def is_abs_def is_sep_def)

text \<open>
  What provisioning leaves alone: the platform, the current directory, the browsers
  launched, and every path but the plugin's own archive.
\<close>

lemma download_plugin_try_frame:
  assumes "download_plugin_try plugin_name w = (r, w')"
  shows "os_name_nt w' = os_name_nt w \<and> cwd w' = cwd w \<and> launched w' = launched w
         \<and> stdin w' = stdin w \<and> console w' = console w
         \<and> fs w - {abspath w (plugin_name @ ''.zip'')} \<subseteq> fs w'"
  using assms
  by (auto simp: download_plugin_try_def Let_def abspath_def
        split: option.splits if_splits http_response.splits archive.splits)

lemma download_plugin_frame:
  assumes "download_plugin plugin_name w = (ok, w')"
  shows "os_name_nt w' = os_name_nt w \<and> cwd w' = cwd w \<and> launched w' = launched w
         \<and> stdin w' = stdin w \<and> console w' = console w
         \<and> fs w - {abspath w (plugin_name @ ''.zip'')} \<subseteq> fs w'"
proof (cases "download_plugin_try plugin_name w")
  case (Pair r v)
  note frame = download_plugin_try_frame [OF Pair]
  show ?thesis
  proof (cases r)
    case (Inl ex)
    with Pair assms frame show ?thesis
      by (cases ex) (auto simp: download_plugin_def)
  next
    case (Inr b)
    with Pair assms frame show ?thesis
      by (auto simp: download_plugin_def)
  qed
qed

lemma ask_download_frame:
  "ask_download plugin_name lines w = (r, w') \<Longrightarrow>
   os_name_nt w' = os_name_nt w \<and> cwd w' = cwd w \<and> launched w' = launched w
   \<and> fs w - {abspath w (plugin_name @ ''.zip'')} \<subseteq> fs w'"
proof (induction lines arbitrary: w)
  case Nil
  then show ?case by auto
next
  case (Cons line rest)
  define w1 where "w1 = w\<lparr>stdin := rest, console := console w @ [AskDownload plugin_name]\<rparr>"
  have same: "os_name_nt w1 = os_name_nt w" "cwd w1 = cwd w" "launched w1 = launched w"
    "fs w1 = fs w" "abspath w1 = abspath w"
    by (simp_all add: w1_def abspath_def fun_eq_iff)
  consider (yes) "lower (strip line) \<in> set yes_answers"
    | (no) "lower (strip line) \<notin> set yes_answers" "lower (strip line) \<in> set no_answers"
    | (again) "lower (strip line) \<notin> set yes_answers" "lower (strip line) \<notin> set no_answers"
    by blast
  then show ?case
  proof cases
    case yes
    obtain ok v where d: "download_plugin plugin_name w1 = (ok, v)"
      by (cases "download_plugin plugin_name w1")
    with yes Cons.prems have "w' = v"
      by (simp add: Let_def w1_def)
    with download_plugin_frame [OF d] same show ?thesis by simp
  next
    case no
    with Cons.prems have "w' = log_event INFO (UserDeclined plugin_name) w1"
      by (simp add: Let_def w1_def)
    with same show ?thesis by auto
  next
    case again
    with Cons.prems have
      "ask_download plugin_name rest (w1\<lparr>console := console w1 @ [AnswerYesOrNo]\<rparr>) = (r, w')"
      by (simp add: Let_def w1_def)
    from Cons.IH [OF this] same show ?thesis
      by (simp add: abspath_def)
  qed
qed

lemma check_and_download_plugin_frame:
  assumes "check_and_download_plugin plugin_name w = (r, w')"
  shows "os_name_nt w' = os_name_nt w \<and> cwd w' = cwd w \<and> launched w' = launched w
         \<and> fs w - {abspath w (plugin_name @ ''.zip'')} \<subseteq> fs w'"
proof (cases "os_path_exists w (os_path_join (os_name_nt w) (cwd w) plugin_name)")
  case True
  with assms show ?thesis by (auto simp: check_and_download_plugin_def)
next
  case False
  show ?thesis
  proof (cases "plugin_name \<notin> set (map fst PLUGIN_URLS)")
    case True
    with False assms show ?thesis
      by (auto simp: check_and_download_plugin_def Let_def)
  next
    case known: False
    with False assms have
      "ask_download plugin_name (stdin w) (log_event WARNING (PluginMissing plugin_name) w) = (r, w')"
      by (simp add: check_and_download_plugin_def Let_def)
    from ask_download_frame [OF this] show ?thesis by simp
  qed
qed

text \<open>The directory \<open>gpt_rf\<close> is not the archive of any plugin.\<close>

lemma gpt_rf_not_an_archive:
  "abspath w ''gpt_rf'' \<noteq> abspath w ''turnstilePatch.zip''"
  "abspath w ''gpt_rf'' \<noteq> abspath w ''my-fingerprint-chrome.zip''"
  "abspath w ''gpt_rf'' \<noteq> abspath w ''cloudflare_ua_patch.zip''"
  by (simp_all add: abspath_def os_path_join_def is_abs_def is_sep_def backslash_def)

lemma attach_plugin_frame:
  assumes "attach_plugin flag plugin_name co w = (Inr co', w')"
    and "abspath w ''gpt_rf'' \<noteq> abspath w (plugin_name @ ''.zip'')"
  shows "os_name_nt w' = os_name_nt w" and "launched w' = launched w"
    and "os_path_exists w ''gpt_rf'' \<Longrightarrow> os_path_exists w' ''gpt_rf''"
    and "user_agent co' = user_agent co"
    and "browser_path co' = browser_path co"
    and "extensions co' = extensions co \<or> extensions co' = extensions co @ [plugin_name]"
proof -
  obtain r v where c: "check_and_download_plugin plugin_name w = (r, v)"
    by (cases "check_and_download_plugin plugin_name w")
  note frame = check_and_download_plugin_frame [OF c]
  have w': "flag \<Longrightarrow> w' = v \<or> w' = log_event WARNING (PluginSkipped plugin_name) v"
    and co': "co' = co \<or> co' = add_extension plugin_name co"
    and "\<not> flag \<Longrightarrow> w' = w"
    using assms(1) c
    by (auto simp: attach_plugin_def split: if_splits sum.splits bool.splits)
  then show "os_name_nt w' = os_name_nt w" and "launched w' = launched w"
    using frame by (cases flag; auto)+
  show "os_path_exists w' ''gpt_rf''" if "os_path_exists w ''gpt_rf''"
  proof (cases flag)
    case True
    have "abspath w ''gpt_rf'' \<in> fs v"
      using that frame assms(2) by (auto simp: os_path_exists_def)
    moreover have "abspath v ''gpt_rf'' = abspath w ''gpt_rf''"
      using frame by (simp add: abspath_def)
    ultimately have "os_path_exists v ''gpt_rf''" by (simp add: os_path_exists_def)
    with w' [OF True] show ?thesis by auto
  next
    case False
    with \<open>\<not> flag \<Longrightarrow> w' = w\<close> that show ?thesis by simp
  qed
  show "user_agent co' = user_agent co" and "browser_path co' = browser_path co"
    and "extensions co' = extensions co \<or> extensions co' = extensions co @ [plugin_name]"
    using co' by (auto simp: add_extension_def)
qed

section \<open>Properties of the launch configurator\<close>

text \<open>A call of \<open>set_driver\<close> that returns has passed through every stage.\<close>

lemma set_driver_returns:
  assumes "set_driver headless_arg browser_path_arg user_agent_arg proxy_arg
             cf_bypass random_fingerprint ua_patch w = (Inr (GuaPage co), w')"
  obtains path co1 w1 co2 w2 co3 w3 where
    "resolve_browser_path browser_path_arg w = Inr path"
    "attach_plugin cf_bypass ''turnstilePatch''
       (base_options headless_arg path user_agent_arg proxy_arg w) w = (Inr co1, w1)"
    "attach_plugin random_fingerprint ''my-fingerprint-chrome'' co1 w1 = (Inr co2, w2)"
    "attach_plugin ua_patch ''cloudflare_ua_patch'' co2 w2 = (Inr co3, w3)"
    "co = (if os_path_exists w3 ''gpt_rf'' then add_extension ''gpt_rf'' co3 else co3)"
    "w' = w3\<lparr>launched := launched w3 @ [co]\<rparr>"
  using assms
  by (auto simp: set_driver_def Let_def split: sum.splits prod.splits if_splits)

lemma setters_user_agent [simp]:
  "user_agent (set_paths p co) = user_agent co"
  "user_agent (set_argument a co) = user_agent co"
  "user_agent (set_pref k v co) = user_agent co"
  "user_agent (set_proxy px co) = user_agent co"
  "user_agent (headless on co) = user_agent co"
  "user_agent (set_user_agent ua co) = Some ua"
  "user_agent (add_extension e co) = user_agent co"
  by (simp_all add: set_paths_def set_argument_def set_pref_def set_proxy_def headless_def
        set_user_agent_def add_extension_def)

lemma setters_extensions [simp]:
  "extensions (set_paths p co) = extensions co"
  "extensions (set_argument a co) = extensions co"
  "extensions (set_pref k v co) = extensions co"
  "extensions (set_proxy px co) = extensions co"
  "extensions (headless on co) = extensions co"
  "extensions (set_user_agent ua co) = extensions co"
  "extensions (add_extension e co) = extensions co @ [e]"
  "extensions ChromiumOptions = []"
  by (simp_all add: set_paths_def set_argument_def set_pref_def set_proxy_def headless_def
        set_user_agent_def add_extension_def ChromiumOptions_def)

lemma if_extensions: "extensions (if c then a else b) = (if c then extensions a else extensions b)"
  by simp

lemma base_options_user_agent:
  "user_agent (base_options headless_arg path user_agent_arg proxy_arg w)
     = Some (if truthy user_agent_arg then the user_agent_arg else default_user_agent)"
  unfolding base_options_def Let_def
  by (cases user_agent_arg) (simp_all add: truthy_def)

lemma base_options_extensions:
  "extensions (base_options headless_arg path user_agent_arg proxy_arg w) = []"
  unfolding base_options_def Let_def
  by (cases user_agent_arg; cases proxy_arg)
     (simp_all add: if_extensions option.case_distrib [of extensions] cong: if_cong)

text \<open>
  Claim C6. With no browser path given (\<open>None\<close> or the empty string) and none of the
  candidate paths of the platform existing, \<open>set_driver\<close> raises \<open>FileNotFoundError\<close>
  and leaves the world as it was: no browser is launched, nothing is provisioned.
\<close>

theorem set_driver_no_browser:
  assumes "\<not> truthy browser_path_arg"
    and "\<forall>p \<in> set (if os_name_nt w then windows_paths else linux_paths). \<not> os_path_exists w p"
  shows "set_driver headless_arg browser_path_arg user_agent_arg proxy_arg
           cf_bypass random_fingerprint ua_patch w = (Inl FileNotFoundError, w)"
proof -
  have "find (os_path_exists w) (if os_name_nt w then windows_paths else linux_paths) = None"
    using assms(2) by (simp add: find_None_iff)
  then have "resolve_browser_path browser_path_arg w = Inl FileNotFoundError"
    using assms(1)
    by (auto simp: resolve_browser_path_def Let_def truthy_def split: option.splits)
  then show ?thesis by (simp add: set_driver_def)
qed

theorem set_driver_no_browser_witness:
  "set_driver False None None None True True True (bare_world\<lparr>fs := {}\<rparr>)
     = (Inl FileNotFoundError, bare_world\<lparr>fs := {}\<rparr>)
   \<and> launched (bare_world\<lparr>fs := {}\<rparr>) = []"
  using set_driver_no_browser [of None "bare_world\<lparr>fs := {}\<rparr>" False None None True True True]
  by (simp add: truthy_def os_path_exists_def bare_world_def)

lemma attach_plugin_flagged:
  assumes "check_and_download_plugin plugin_name w = (Inr ok, w')"
  shows "attach_plugin True plugin_name co w
           = (Inr (if ok then add_extension plugin_name co else co),
              if ok then w' else log_event WARNING (PluginSkipped plugin_name) w')"
  using assms by (simp add: attach_plugin_def)


text \<open>With the three flags set, the run of \<open>set_driver\<close> when each provisioning call answers.\<close>

lemma set_driver_flagged_run:
  assumes "resolve_browser_path browser_path_arg w = Inr path"
    and "check_and_download_plugin ''turnstilePatch'' w = (Inr ok1, w1)"
    and "check_and_download_plugin ''my-fingerprint-chrome''
           (if ok1 then w1 else log_event WARNING (PluginSkipped ''turnstilePatch'') w1)
         = (Inr ok2, w2)"
    and "check_and_download_plugin ''cloudflare_ua_patch''
           (if ok2 then w2 else log_event WARNING (PluginSkipped ''my-fingerprint-chrome'') w2)
         = (Inr ok3, w3)"
  shows "\<exists>co w'. set_driver headless_arg browser_path_arg user_agent_arg proxy_arg
                     True True True w = (Inr (GuaPage co), w')
            \<and> extensions co =
                 (if ok1 then [''turnstilePatch''] else [])
                 @ (if ok2 then [''my-fingerprint-chrome''] else [])
                 @ (if ok3 then [''cloudflare_ua_patch''] else [])
                 @ (if os_path_exists w3 ''gpt_rf'' then [''gpt_rf''] else [])
            \<and> launched w' = launched w3 @ [co]"
proof -
  define co0 where "co0 = base_options headless_arg path user_agent_arg proxy_arg w"
  define co1 where "co1 = (if ok1 then add_extension ''turnstilePatch'' co0 else co0)"
  define co2 where "co2 = (if ok2 then add_extension ''my-fingerprint-chrome'' co1 else co1)"
  define co3 where "co3 = (if ok3 then add_extension ''cloudflare_ua_patch'' co2 else co2)"
  define v3 where
    "v3 = (if ok3 then w3 else log_event WARNING (PluginSkipped ''cloudflare_ua_patch'') w3)"
  define co4 where
    "co4 = (if os_path_exists v3 ''gpt_rf'' then add_extension ''gpt_rf'' co3 else co3)"
  have run: "set_driver headless_arg browser_path_arg user_agent_arg proxy_arg True True True w
        = (Inr (GuaPage co4), v3\<lparr>launched := launched v3 @ [co4]\<rparr>)"
    unfolding set_driver_def
    by (simp add: assms(1) Let_def
          attach_plugin_flagged [OF assms(2)] attach_plugin_flagged [OF assms(3)]
          attach_plugin_flagged [OF assms(4)]
          co0_def co1_def co2_def co3_def v3_def co4_def)
  have gpt: "os_path_exists v3 ''gpt_rf'' = os_path_exists w3 ''gpt_rf''"
    by (simp add: v3_def)
  have ext: "extensions co4 =
      (if ok1 then [''turnstilePatch''] else [])
      @ (if ok2 then [''my-fingerprint-chrome''] else [])
      @ (if ok3 then [''cloudflare_ua_patch''] else [])
      @ (if os_path_exists w3 ''gpt_rf'' then [''gpt_rf''] else [])"
    by (simp add: co4_def co3_def co2_def co1_def co0_def gpt base_options_extensions)
  have "launched (v3\<lparr>launched := launched v3 @ [co4]\<rparr>) = launched w3 @ [co4]"
    by (simp add: v3_def)
  with run ext show ?thesis by blast
qed


text \<open>The run on the machine of \<open>declining_world\<close>, one provisioning call after the other.\<close>

lemma answers: "lower (strip '' No '') = ''no''" "lower (strip ''Y'') = ''y''"
  by (simp_all add: lower_def strip_def is_space_def char_of_def bit_0)

lemmas provisioning_defs =
  check_and_download_plugin_def download_plugin_def download_plugin_try_def Let_def
  os_path_exists_def abspath_def os_path_join_def is_abs_def is_sep_def PLUGIN_URLS_def
  answers yes_answers_def no_answers_def log_event_def

lemma declining_resolve:
  "resolve_browser_path None declining_world = Inr ''/usr/bin/chromium''"
  by (simp add: resolve_browser_path_def declining_world_def bare_world_def Let_def truthy_def
        linux_paths_def os_path_exists_def abspath_def os_path_join_def is_abs_def is_sep_def)

lemma declining_first:
  "fst (check_and_download_plugin ''turnstilePatch'' declining_world) = Inr False"
  by (simp add: declining_world_def bare_world_def provisioning_defs)

lemma declining_second:
  "fst (check_and_download_plugin ''my-fingerprint-chrome''
          (log_event WARNING (PluginSkipped ''turnstilePatch'')
             (snd (check_and_download_plugin ''turnstilePatch'' declining_world)))) = Inr True"
  by (simp add: declining_world_def bare_world_def provisioning_defs)

lemma declining_third:
  "fst (check_and_download_plugin ''cloudflare_ua_patch''
          (snd (check_and_download_plugin ''my-fingerprint-chrome''
             (log_event WARNING (PluginSkipped ''turnstilePatch'')
                (snd (check_and_download_plugin ''turnstilePatch'' declining_world))))))
     = Inr False"
  by (simp add: declining_world_def bare_world_def provisioning_defs)


lemma pair_of_fst: "fst p = a \<Longrightarrow> p = (a, snd p)"
  by (cases p) simp


lemma attach_plugin_unflagged: "attach_plugin False plugin_name co w = (Inr co, w)"
  by (simp add: attach_plugin_def)

text \<open>
  Claim C9. When \<open>gpt_rf\<close> exists in the current directory, every call of
  \<open>set_driver\<close> that returns a driver has attached \<open>gpt_rf\<close> as the last extension,
  whatever the three flags are. The provisioner has no part in it: with the three flags
  off and the browser found, the call returns the driver with \<open>gpt_rf\<close> as its only
  extension and changes nothing in the world but the browser it launches (no request,
  no prompt, no line read).
\<close>

theorem set_driver_attaches_gpt_rf:
  assumes "os_path_exists w ''gpt_rf''"
  shows "(\<forall>co w'. set_driver headless_arg browser_path_arg user_agent_arg proxy_arg
                     cf_bypass random_fingerprint ua_patch w = (Inr (GuaPage co), w')
            \<longrightarrow> extensions co \<noteq> [] \<and> last (extensions co) = ''gpt_rf'')
       \<and> (\<forall>path. resolve_browser_path browser_path_arg w = Inr path \<longrightarrow>
            (\<exists>co. set_driver headless_arg browser_path_arg user_agent_arg proxy_arg
                     False False False w
                   = (Inr (GuaPage co), w\<lparr>launched := launched w @ [co]\<rparr>)
                 \<and> extensions co = [''gpt_rf'']))"
proof (rule conjI; intro allI impI)
  fix co w'
  assume "set_driver headless_arg browser_path_arg user_agent_arg proxy_arg
            cf_bypass random_fingerprint ua_patch w = (Inr (GuaPage co), w')"
  then obtain path co1 w1 co2 w2 co3 w3 where
    a1: "attach_plugin cf_bypass ''turnstilePatch''
           (base_options headless_arg path user_agent_arg proxy_arg w) w = (Inr co1, w1)"
    and a2: "attach_plugin random_fingerprint ''my-fingerprint-chrome'' co1 w1 = (Inr co2, w2)"
    and a3: "attach_plugin ua_patch ''cloudflare_ua_patch'' co2 w2 = (Inr co3, w3)"
    and co: "co = (if os_path_exists w3 ''gpt_rf'' then add_extension ''gpt_rf'' co3 else co3)"
    by (rule set_driver_returns)
  have "os_path_exists w1 ''gpt_rf''"
    using attach_plugin_frame(3) [OF a1 _ assms] gpt_rf_not_an_archive(1) by simp
  then have "os_path_exists w2 ''gpt_rf''"
    using attach_plugin_frame(3) [OF a2] gpt_rf_not_an_archive(2) by simp
  then have "os_path_exists w3 ''gpt_rf''"
    using attach_plugin_frame(3) [OF a3] gpt_rf_not_an_archive(3) by simp
  with co show "extensions co \<noteq> [] \<and> last (extensions co) = ''gpt_rf''"
    by simp
next
  fix path
  assume "resolve_browser_path browser_path_arg w = Inr path"
  then show "\<exists>co. set_driver headless_arg browser_path_arg user_agent_arg proxy_arg
                     False False False w
                   = (Inr (GuaPage co), w\<lparr>launched := launched w @ [co]\<rparr>)
                 \<and> extensions co = [''gpt_rf'']"
    using assms
    by (simp add: set_driver_def attach_plugin_unflagged Let_def base_options_extensions)
qed

lemma declining_has_gpt_rf: "os_path_exists declining_world ''gpt_rf''"
  by (simp add: declining_world_def bare_world_def provisioning_defs)

theorem set_driver_attaches_gpt_rf_witness:
  "(\<exists>co w'. set_driver False None None None True True True declining_world
              = (Inr (GuaPage co), w')
           \<and> extensions co \<noteq> [] \<and> last (extensions co) = ''gpt_rf'')
   \<and> (\<exists>co. set_driver False None None None False False False declining_world
             = (Inr (GuaPage co), declining_world\<lparr>launched := launched declining_world @ [co]\<rparr>)
          \<and> extensions co = [''gpt_rf''])"
proof -
  note T = set_driver_attaches_gpt_rf [OF declining_has_gpt_rf,
      of False None None None]
  from set_driver_flagged_run [OF declining_resolve
      pair_of_fst [OF declining_first]
      pair_of_fst [of _ "Inr True"] pair_of_fst [of _ "Inr False"],
      of False None None]
  obtain co w' where run:
    "set_driver False None None None True True True declining_world = (Inr (GuaPage co), w')"
    by (simp add: declining_second declining_third) blast
  from T [of True True True, THEN conjunct1] run
  have "extensions co \<noteq> [] \<and> last (extensions co) = ''gpt_rf''" by blast
  with run have first: "\<exists>co w'. set_driver False None None None True True True declining_world
              = (Inr (GuaPage co), w')
           \<and> extensions co \<noteq> [] \<and> last (extensions co) = ''gpt_rf''" by blast
  from T [of True True True, THEN conjunct2] declining_resolve
  have "\<exists>co. set_driver False None None None False False False declining_world
             = (Inr (GuaPage co), declining_world\<lparr>launched := launched declining_world @ [co]\<rparr>)
          \<and> extensions co = [''gpt_rf'']" by blast
  with first show ?thesis by blast
qed

text \<open>
  Claim C10. With no user agent given (\<open>None\<close> or the empty string), every call of
  \<open>set_driver\<close> that returns a driver has set the user agent of the launch options to
  the one hardcoded string, a Linux x86_64 Chrome 131 user agent, whatever the platform
  is; the options never leave the user agent to the driver.
\<close>

theorem set_driver_default_user_agent:
  assumes "\<not> truthy user_agent_arg"
    and "set_driver headless_arg browser_path_arg user_agent_arg proxy_arg
           cf_bypass random_fingerprint ua_patch w = (Inr (GuaPage co), w')"
  shows "user_agent co = Some default_user_agent
       \<and> default_user_agent =
           ''Mozilla/5.0 (X11; Linux x86_64) AppleWebKit/537.36 (KHTML, like Gecko) Chrome/131.0.0.0 Safari/537.36''"
proof -
  from assms(2) obtain path co1 w1 co2 w2 co3 w3 where
    a1: "attach_plugin cf_bypass ''turnstilePatch''
           (base_options headless_arg path user_agent_arg proxy_arg w) w = (Inr co1, w1)"
    and a2: "attach_plugin random_fingerprint ''my-fingerprint-chrome'' co1 w1 = (Inr co2, w2)"
    and a3: "attach_plugin ua_patch ''cloudflare_ua_patch'' co2 w2 = (Inr co3, w3)"
    and co: "co = (if os_path_exists w3 ''gpt_rf'' then add_extension ''gpt_rf'' co3 else co3)"
    by (rule set_driver_returns)
  have "user_agent co = user_agent co3" using co by simp
  also have "\<dots> = user_agent co2"
    using attach_plugin_frame(4) [OF a3] gpt_rf_not_an_archive(3) by simp
  also have "\<dots> = user_agent co1"
    using attach_plugin_frame(4) [OF a2] gpt_rf_not_an_archive(2) by simp
  also have "\<dots> = user_agent (base_options headless_arg path user_agent_arg proxy_arg w)"
    using attach_plugin_frame(4) [OF a1] gpt_rf_not_an_archive(1) by simp
  also have "\<dots> = Some default_user_agent"
    using assms(1) by (simp add: base_options_user_agent)
  finally show ?thesis by (simp add: default_user_agent_def)
qed

lemma windows_resolve:
  "resolve_browser_path None windows_world
     = Inr (nt_path [''C:'', ''Program Files'', ''Google'', ''Chrome'', ''Application'',
                     ''chrome.exe''])"
  by (simp add: resolve_browser_path_def windows_world_def bare_world_def Let_def truthy_def
        windows_paths_def os_path_exists_def abspath_def os_path_join_def is_abs_def is_sep_def
        nt_path_def backslash_def)

theorem set_driver_default_user_agent_witness:
  "(\<exists>co w'. set_driver True None None None False False False windows_world
               = (Inr (GuaPage co), w')
            \<and> user_agent co = Some default_user_agent)
   \<and> (\<exists>co w'. set_driver False None (Some []) None True True True declining_world
               = (Inr (GuaPage co), w')
            \<and> user_agent co = Some default_user_agent)"
proof -
  have "\<exists>co w'. set_driver True None None None False False False windows_world
          = (Inr (GuaPage co), w')"
    by (simp add: set_driver_def windows_resolve attach_plugin_unflagged Let_def)
  then obtain co w' where run:
    "set_driver True None None None False False False windows_world = (Inr (GuaPage co), w')"
    by blast
  have "user_agent co = Some default_user_agent"
    using set_driver_default_user_agent [OF _ run] by (simp add: truthy_def)
  with run have win: "\<exists>co w'. set_driver True None None None False False False windows_world
               = (Inr (GuaPage co), w')
            \<and> user_agent co = Some default_user_agent" by blast
  from set_driver_flagged_run [OF declining_resolve
      pair_of_fst [OF declining_first]
      pair_of_fst [of _ "Inr True"] pair_of_fst [of _ "Inr False"],
      of False "Some []" None]
  obtain co2 w2 where run2:
    "set_driver False None (Some []) None True True True declining_world = (Inr (GuaPage co2), w2)"
    by (simp add: declining_second declining_third) blast
  have "user_agent co2 = Some default_user_agent"
    using set_driver_default_user_agent [OF _ run2] by (simp add: truthy_def)
  with run2 win show ?thesis by blast
qed

end
